theory Spec2Isabelle
  imports Complex_Main "HOL-Library.AList"
begin

section \<open>Python values\<close>

text \<open>
  The values that \<^verbatim>\<open>json.loads\<close> produces and that the handlers pass on unchanged:
  \<^verbatim>\<open>None\<close>, booleans, unbounded integers, floats, strings, lists and dictionaries.
  A finite float is the rational number it denotes; a dictionary is its list of items
  in insertion order.
\<close>

datatype pyval =
    PNone
  | PBool bool
  | PInt int
  | PFloat rat
  | PStr string
  | PList "pyval list"
  | PDict "(string \<times> pyval) list"

text \<open>\<^verbatim>\<open>d.get(key)\<close>: the value stored last under the key, \<^verbatim>\<open>None\<close> without one.\<close>

definition dict_get :: "(string \<times> pyval) list \<Rightarrow> string \<Rightarrow> pyval" where
  "dict_get d k = (case map_of (rev d) k of None \<Rightarrow> PNone | Some v \<Rightarrow> v)"

text \<open>\<^verbatim>\<open>d.update(e)\<close>: every item of \<open>e\<close> stored into \<open>d\<close>, a known key keeping its place.\<close>

definition dict_update :: "(string \<times> pyval) list \<Rightarrow> (string \<times> pyval) list \<Rightarrow> (string \<times> pyval) list" where
  "dict_update d e = fold (\<lambda>(k, v). AList.update k v) e d"

text \<open>Truth value of an object in a condition (\<^verbatim>\<open>if app_name and ...\<close>).\<close>

fun truthy :: "pyval \<Rightarrow> bool" where
  "truthy PNone = False"
| "truthy (PBool b) = b"
| "truthy (PInt n) = (n \<noteq> 0)"
| "truthy (PFloat r) = (r \<noteq> 0)"
| "truthy (PStr s) = (s \<noteq> [])"
| "truthy (PList xs) = (xs \<noteq> [])"
| "truthy (PDict kvs) = (kvs \<noteq> [])"

text \<open>The number a numeric object stands for (\<^verbatim>\<open>True\<close> is 1, \<^verbatim>\<open>False\<close> is 0).\<close>

fun py_num :: "pyval \<Rightarrow> rat option" where
  "py_num (PBool b) = Some (if b then 1 else 0)"
| "py_num (PInt n) = Some (of_int n)"
| "py_num (PFloat r) = Some r"
| "py_num _ = None"

text \<open>
  \<^verbatim>\<open>min(a, b)\<close> returns \<open>b\<close> when \<open>b < a\<close> and \<open>a\<close> otherwise, \<^verbatim>\<open>max(a, b)\<close> returns
  \<open>b\<close> when \<open>b > a\<close> and \<open>a\<close> otherwise; comparing a number with anything that is not a
  number raises \<^verbatim>\<open>TypeError\<close>, here \<open>None\<close>.
\<close>

definition py_min :: "pyval \<Rightarrow> pyval \<Rightarrow> pyval option" where
  "py_min a b =
     (case (py_num a, py_num b) of
        (Some x, Some y) \<Rightarrow> Some (if y < x then b else a)
      | _ \<Rightarrow> None)"

definition py_max :: "pyval \<Rightarrow> pyval \<Rightarrow> pyval option" where
  "py_max a b =
     (case (py_num a, py_num b) of
        (Some x, Some y) \<Rightarrow> Some (if x < y then b else a)
      | _ \<Rightarrow> None)"

text \<open>\<^verbatim>\<open>max(0, min(100, level))\<close> on an object.\<close>

definition clamp_level :: "pyval \<Rightarrow> pyval option" where
  "clamp_level level =
     (case py_min (PInt 100) level of
        None \<Rightarrow> None
      | Some m \<Rightarrow> py_max (PInt 0) m)"

text \<open>The same expression on an integer, as \<^verbatim>\<open>set_volume\<close> receives it.\<close>

definition clamp :: "int \<Rightarrow> int \<Rightarrow> int \<Rightarrow> int" where
  "clamp v lo hi = max lo (min hi v)"

section \<open>Float arithmetic\<close>

text \<open>
  Python floats are IEEE 754 binary64 numbers: the result of a division or a
  multiplication is the exact result rounded to the nearest number with a 53-bit
  significand, ties going to the even significand. \<open>binade\<close> finds the exponent \<open>e\<close>
  with \<open>2 ^ e \<le> q < 2 ^ (e + 1)\<close>; its fuel spans the exponent range of the format, and
  below \<open>2 ^ -1022\<close> the spacing stays that of the smallest normal numbers. Overflow to
  infinity does not arise: every float computed here is at most 100 times a scalar of
  the audio endpoint.
\<close>

fun round_half_even :: "rat \<Rightarrow> int" where
  "round_half_even q =
     (let f = \<lfloor>q\<rfloor>; d = q - of_int f
      in if d < 1 / 2 then f else if 1 / 2 < d then f + 1 else if even f then f else f + 1)"

fun binade :: "nat \<Rightarrow> rat \<Rightarrow> int \<Rightarrow> int" where
  "binade 0 q e = e"
| "binade (Suc n) q e =
     (if 2 \<le> q then binade n (q / 2) (e + 1)
      else if q < 1 then binade n (q * 2) (e - 1)
      else e)"

definition fl :: "rat \<Rightarrow> rat" where
  "fl q =
     (if q = 0 then 0
      else let e = max (binade 1024 \<bar>q\<bar> 0) (- 1022);
               ulp = 2 powi (e - 52)
           in sgn q * of_int (round_half_even (\<bar>q\<bar> / ulp)) * ulp)"

text \<open>\<^verbatim>\<open>int(x)\<close> on a float truncates towards zero.\<close>

definition py_int_of_float :: "rat \<Rightarrow> int" where
  "py_int_of_float x = (if 0 \<le> x then \<lfloor>x\<rfloor> else \<lceil>x\<rceil>)"

text \<open>\<^verbatim>\<open>level / 100.0\<close> and \<^verbatim>\<open>int(scalar * 100)\<close>.\<close>

definition scalar_of_level :: "rat \<Rightarrow> rat" where
  "scalar_of_level level = fl (level / 100)"

definition percent_of_scalar :: "rat \<Rightarrow> int" where
  "percent_of_scalar scalar = py_int_of_float (fl (scalar * 100))"

section \<open>The volume controller and the audio endpoint behind it\<close>

datatype log_level = DEBUG | INFO | WARNING | ERROR

datatype ep_call =
    SetMasterVolumeLevelScalar rat
  | SetMute bool
  | SetMasterVolume nat rat

text \<open>An entry of \<^verbatim>\<open>self.app_volumes\<close>: the session's volume control and the cached level.\<close>

record app_entry =
  control :: nat
  volume :: pyval

text \<open>
  The fields of \<^verbatim>\<open>WindowsVolumeController\<close>, the module's logger, and the part of the
  operating system the controller talks to: the default endpoint (its master scalar and
  mute flag; every call on it raises while \<open>device_ok\<close> is false), the audio sessions
  that \<^verbatim>\<open>GetAllSessions\<close> lists (process name, if any, and volume control) and the scalar
  of every live volume control (a call on a control without one raises). The endpoint
  keeps the scalar it is given. \<open>set_calls\<close> records the calls that change the endpoint.
  A reading of \<^verbatim>\<open>time.time()\<close> is the number of seconds it denotes, and readings are
  subtracted and compared exactly.
\<close>

record audio =
  device_ok :: bool
  master_scalar :: rat
  mute_state :: bool
  sessions :: "(string option \<times> nat) list"
  session_scalar :: "nat \<rightharpoonup> rat"
  set_calls :: "ep_call list"
  monitored_apps :: "string list"
  update_rate_limit :: rat
  sync_interval :: rat
  last_update :: rat
  current_volume :: int
  app_volumes :: "(string \<times> app_entry) list"
  last_sync :: rat
  logs :: "(log_level \<times> string) list"

definition logger :: "log_level \<Rightarrow> string \<Rightarrow> 'a audio_scheme \<Rightarrow> 'a audio_scheme" where
  "logger lvl msg s = s\<lparr>logs := logs s @ [(lvl, msg)]\<rparr>"

definition set_volume :: "int \<Rightarrow> rat \<Rightarrow> 'a audio_scheme \<Rightarrow> bool \<times> 'a audio_scheme" where
  "set_volume level current_time s =
     (if current_time - last_update s < update_rate_limit s then (False, s)
      else
        let level = max 0 (min 100 level);
            scalar_level = scalar_of_level (of_int level)
        in if \<not> device_ok s then (False, logger ERROR ''Error setting volume'' s)
           else (True, logger DEBUG ''Volume set'' (s\<lparr>
                   master_scalar := scalar_level,
                   set_calls := set_calls s @ [SetMasterVolumeLevelScalar scalar_level],
                   current_volume := level,
                   last_update := current_time\<rparr>)))"

definition get_volume :: "'a audio_scheme \<Rightarrow> int \<times> 'a audio_scheme" where
  "get_volume s =
     (if device_ok s then (percent_of_scalar (master_scalar s), s)
      else (current_volume s, logger ERROR ''Error getting volume'' s))"

definition mute :: "'a audio_scheme \<Rightarrow> bool \<times> 'a audio_scheme" where
  "mute s =
     (if device_ok s
      then (True, logger INFO ''Audio muted''
              (s\<lparr>mute_state := True, set_calls := set_calls s @ [SetMute True]\<rparr>))
      else (False, logger ERROR ''Error muting audio'' s))"

definition unmute :: "'a audio_scheme \<Rightarrow> bool \<times> 'a audio_scheme" where
  "unmute s =
     (if device_ok s
      then (True, logger INFO ''Audio unmuted''
              (s\<lparr>mute_state := False, set_calls := set_calls s @ [SetMute False]\<rparr>))
      else (False, logger ERROR ''Error unmuting audio'' s))"

definition is_muted :: "'a audio_scheme \<Rightarrow> bool \<times> 'a audio_scheme" where
  "is_muted s =
     (if device_ok s then (mute_state s, s)
      else (False, logger ERROR ''Error checking mute status'' s))"

text \<open>
  The loop of \<^verbatim>\<open>_scan_applications\<close>; the flag is false when a call on a session raised,
  which ends the loop with the entries stored so far.
\<close>

fun scan_sessions :: "(string option \<times> nat) list \<Rightarrow> 'a audio_scheme \<Rightarrow> bool \<times> 'a audio_scheme" where
  "scan_sessions [] s = (True, s)"
| "scan_sessions ((proc, h) # rest) s =
     (case proc of
        None \<Rightarrow> scan_sessions rest s
      | Some app_name \<Rightarrow>
          if app_name \<noteq> [] \<and> app_name \<in> set (monitored_apps s) then
            (case session_scalar s h of
               None \<Rightarrow> (False, s)
             | Some x \<Rightarrow>
                 scan_sessions rest (logger DEBUG ''Found audio app''
                   (s\<lparr>app_volumes := AList.update app_name
                        \<lparr>control = h, volume = PInt (percent_of_scalar x)\<rparr> (app_volumes s)\<rparr>)))
          else scan_sessions rest s)"

definition scan_applications :: "'a audio_scheme \<Rightarrow> 'a audio_scheme" where
  "scan_applications s =
     (if \<not> device_ok s then logger ERROR ''Error scanning applications'' s
      else
        let (ok, s1) = scan_sessions (sessions s) (s\<lparr>app_volumes := []\<rparr>)
        in if ok then logger INFO ''Monitoring audio applications'' s1
           else logger ERROR ''Error scanning applications'' s1)"

definition get_app_volume :: "string \<Rightarrow> 'a audio_scheme \<Rightarrow> int option \<times> 'a audio_scheme" where
  "get_app_volume app_name s =
     (case map_of (app_volumes s) app_name of
        None \<Rightarrow> (None, s)
      | Some entry \<Rightarrow>
          (case session_scalar s (control entry) of
             None \<Rightarrow> (None, logger ERROR ''Error getting volume for app'' s)
           | Some x \<Rightarrow>
               let vol = percent_of_scalar x
               in (Some vol, s\<lparr>app_volumes :=
                     AList.update app_name (entry\<lparr>volume := PInt vol\<rparr>) (app_volumes s)\<rparr>)))"

text \<open>
  \<^verbatim>\<open>set_app_volume\<close> receives the objects of the decoded command. A list or a dictionary
  as application name is unhashable, so the membership test raises; any other object
  that is not a string is no key of \<^verbatim>\<open>self.app_volumes\<close>.
\<close>

definition set_app_volume :: "pyval \<Rightarrow> pyval \<Rightarrow> 'a audio_scheme \<Rightarrow> bool \<times> 'a audio_scheme" where
  "set_app_volume app_name level s =
     (case app_name of
        PList _ \<Rightarrow> (False, logger ERROR ''Error setting volume for app'' s)
      | PDict _ \<Rightarrow> (False, logger ERROR ''Error setting volume for app'' s)
      | PStr name \<Rightarrow>
          (case map_of (app_volumes s) name of
             None \<Rightarrow> (False, logger WARNING ''Application not found'' s)
           | Some entry \<Rightarrow>
               (case clamp_level level of
                  None \<Rightarrow> (False, logger ERROR ''Error setting volume for app'' s)
                | Some level \<Rightarrow>
                    (case py_num level of
                       None \<Rightarrow> (False, logger ERROR ''Error setting volume for app'' s)
                     | Some x \<Rightarrow>
                         let scalar_level = scalar_of_level x
                         in (case session_scalar s (control entry) of
                               None \<Rightarrow> (False, logger ERROR ''Error setting volume for app'' s)
                             | Some _ \<Rightarrow>
                                 (True, logger INFO ''Set app volume'' (s\<lparr>
                                    session_scalar := (session_scalar s)(control entry \<mapsto> scalar_level),
                                    set_calls := set_calls s @ [SetMasterVolume (control entry) scalar_level],
                                    app_volumes := AList.update name (entry\<lparr>volume := level\<rparr>)
                                                     (app_volumes s)\<rparr>))))))
      | _ \<Rightarrow> (False, logger WARNING ''Application not found'' s))"

fun get_all_loop :: "string list \<Rightarrow> (string \<times> int) list \<Rightarrow> 'a audio_scheme \<Rightarrow> (string \<times> int) list \<times> 'a audio_scheme" where
  "get_all_loop [] volumes s = (volumes, s)"
| "get_all_loop (app_name # rest) volumes s =
     (case get_app_volume app_name s of
        (None, s') \<Rightarrow> get_all_loop rest volumes s'
      | (Some vol, s') \<Rightarrow> get_all_loop rest (AList.update app_name vol volumes) s')"

definition get_all_app_volumes :: "'a audio_scheme \<Rightarrow> (string \<times> int) list \<times> 'a audio_scheme" where
  "get_all_app_volumes s = get_all_loop (map fst (app_volumes s)) [] s"

definition refresh_applications :: "'a audio_scheme \<Rightarrow> 'a audio_scheme" where
  "refresh_applications s = scan_applications s"

definition sync_volume_from_system :: "rat \<Rightarrow> 'a audio_scheme \<Rightarrow> int option \<times> 'a audio_scheme" where
  "sync_volume_from_system current_time s =
     (if current_time - last_sync s < sync_interval s then (None, s)
      else
        let (system_volume, s1) = get_volume s
        in if \<bar>system_volume - current_volume s1\<bar> > 1
           then (Some system_volume, logger DEBUG ''System volume changed externally''
                   (s1\<lparr>current_volume := system_volume, last_sync := current_time\<rparr>))
           else (None, s1\<lparr>last_sync := current_time\<rparr>))"

section \<open>The MQTT client\<close>

text \<open>
  What \<^verbatim>\<open>client.publish\<close> is called with: the payload is either the object given to
  \<^verbatim>\<open>json.dumps\<close> or the integer given to \<^verbatim>\<open>str\<close>.
\<close>

datatype payload = Json pyval | Str int

record message =
  topic :: string
  body :: payload
  msg_qos :: nat
  msg_retain :: bool

text \<open>
  The fields of \<^verbatim>\<open>MQTTVolumeClient\<close> on top of its volume controller: \<open>topics\<close> is the
  dictionary of topic names, \<open>system_monitor\<close> tells whether a monitor is attached,
  \<open>published\<close> and \<open>connect_calls\<close> record the calls of \<^verbatim>\<open>client.publish\<close> and
  \<^verbatim>\<open>client.connect\<close>, \<open>power_event_calls\<close> the power events handed to the client
  (event type and details), and \<open>broker_reachable\<close> is the network: \<^verbatim>\<open>client.connect\<close>
  raises while it is false.
\<close>

record client = audio +
  connected :: bool
  running :: bool
  broker :: "string option"
  port :: int
  keepalive :: int
  client_id :: string
  qos :: nat
  retain :: bool
  topics :: "string \<rightharpoonup> string"
  system_monitor :: bool
  broker_reachable :: bool
  connect_calls :: "(string \<times> int \<times> int) list"
  published :: "message list"
  power_event_calls :: "(string \<times> (string \<times> pyval) list option) list"

definition client_publish :: "string \<Rightarrow> payload \<Rightarrow> nat \<Rightarrow> bool \<Rightarrow> 'a client_scheme \<Rightarrow> 'a client_scheme" where
  "client_publish t p q r s =
     s\<lparr>published := published s @ [\<lparr>topic = t, body = p, msg_qos = q, msg_retain = r\<rparr>]\<rparr>"

text \<open>\<^verbatim>\<open>if topic:\<close> on the result of \<^verbatim>\<open>self.topics.get(name)\<close>.\<close>

definition topic_set :: "string option \<Rightarrow> bool" where
  "topic_set t = (case t of None \<Rightarrow> False | Some n \<Rightarrow> n \<noteq> [])"

text \<open>The topic name inside an f-string: \<^verbatim>\<open>None\<close> prints as its name.\<close>

definition topic_str :: "string option \<Rightarrow> string" where
  "topic_str t = (case t of None \<Rightarrow> ''None'' | Some n \<Rightarrow> n)"

definition connect :: "'a client_scheme \<Rightarrow> bool \<times> 'a client_scheme" where
  "connect s =
     (case broker s of
        None \<Rightarrow> (False, logger ERROR ''MQTT broker not configured'' s)
      | Some b \<Rightarrow>
          if b = [] \<or> b = ''192.168.1.xxx''
          then (False, logger ERROR ''MQTT broker not configured'' s)
          else
            let s1 = logger INFO ''Connecting to MQTT broker'' s;
                s2 = s1\<lparr>connect_calls := connect_calls s1 @ [(b, port s1, keepalive s1)]\<rparr>
            in if broker_reachable s2 then (True, s2)
               else (False, logger ERROR ''Failed to connect to MQTT broker'' s2))"

definition publish_status :: "string \<Rightarrow> rat \<Rightarrow> 'a client_scheme \<Rightarrow> 'a client_scheme" where
  "publish_status status now s =
     (let (vol, s1) = get_volume s;
          (muted, s2) = is_muted s1;
          status_data = PDict [(''status'', PStr status), (''volume'', PInt vol),
            (''muted'', PBool muted), (''client_id'', PStr (client_id s2)),
            (''timestamp'', PFloat now)]
      in if topic_set (topics s2 ''status'')
         then logger DEBUG ''Status published''
                (client_publish (the (topics s2 ''status'')) (Json status_data) (qos s2) (retain s2) s2)
         else s2)"

definition publish_app_volumes :: "'a client_scheme \<Rightarrow> 'a client_scheme" where
  "publish_app_volumes s =
     (let (vols, s1) = get_all_app_volumes s
      in if vols \<noteq> []
         then logger DEBUG ''Published app volumes''
                (client_publish (topic_str (topics s1 ''app_volume'') @ ''/status'')
                   (Json (PDict (map (\<lambda>(k, v). (k, PInt v)) vols))) (qos s1) False s1)
         else s1)"

definition publish_app_volume_status :: "string \<Rightarrow> pyval \<Rightarrow> rat \<Rightarrow> 'a client_scheme \<Rightarrow> 'a client_scheme" where
  "publish_app_volume_status app_name vol now s =
     (let data = PDict [(''app'', PStr app_name), (''volume'', vol), (''timestamp'', PFloat now)]
      in client_publish (topic_str (topics s ''app_volume'') @ ''/status/'' @ app_name)
           (Json data) (qos s) False s)"

definition publish_volume_change :: "int \<Rightarrow> 'a client_scheme \<Rightarrow> 'a client_scheme" where
  "publish_volume_change vol s =
     (if topic_set (topics s ''pc_volume'')
      then logger DEBUG ''Published volume change''
             (client_publish (the (topics s ''pc_volume'')) (Str vol) (qos s) False s)
      else s)"

definition publish_power_event :: "string \<Rightarrow> (string \<times> pyval) list option \<Rightarrow> rat \<Rightarrow> 'a client_scheme \<Rightarrow> 'a client_scheme" where
  "publish_power_event event_type details now s0 =
     (let s = s0\<lparr>power_event_calls := power_event_calls s0 @ [(event_type, details)]\<rparr>;
          power_event = [(''event'', PStr event_type), (''timestamp'', PFloat now)];
          power_event = (case details of
                           None \<Rightarrow> power_event
                         | Some d \<Rightarrow> if d \<noteq> [] then dict_update power_event d else power_event)
      in if topic_set (topics s ''pc_power'')
         then logger DEBUG ''Published power event''
                (client_publish (the (topics s ''pc_power'')) (Json (PDict power_event)) (qos s) False s)
         else s)"

text \<open>
  \<^verbatim>\<open>MQTTVolumeClient.publish_system_status\<close>, and the monitor's method of the same name
  in front of it. The snapshot of system metrics comes from \<^verbatim>\<open>psutil\<close>; it is an input,
  \<open>None\<close> when collecting it raised.
\<close>

definition publish_system_status :: "pyval \<Rightarrow> 'a client_scheme \<Rightarrow> 'a client_scheme" where
  "publish_system_status system_data s =
     (if topic_set (topics s ''pc_system'')
      then logger DEBUG ''System status published''
             (client_publish (the (topics s ''pc_system'')) (Json system_data) (qos s) (retain s) s)
      else s)"

definition monitor_publish_system_status :: "pyval option \<Rightarrow> 'a client_scheme \<Rightarrow> 'a client_scheme" where
  "monitor_publish_system_status status_data s =
     (case status_data of
        None \<Rightarrow> logger ERROR ''Error publishing system status'' s
      | Some d \<Rightarrow> logger DEBUG ''System status published'' (publish_system_status d s))"

text \<open>
  \<^verbatim>\<open>_handle_volume_message\<close>. \<open>py_int\<close> is Python's \<^verbatim>\<open>int\<close> on a string, \<open>None\<close> where
  it raises \<^verbatim>\<open>ValueError\<close>.
\<close>

definition handle_volume_message :: "(string \<Rightarrow> int option) \<Rightarrow> string \<Rightarrow> rat \<Rightarrow> 'a client_scheme \<Rightarrow> 'a client_scheme" where
  "handle_volume_message py_int payload now s =
     (case py_int payload of
        None \<Rightarrow> logger WARNING ''Invalid volume value'' s
      | Some volume_level \<Rightarrow>
          let (ok, s1) = set_volume volume_level now s
          in if ok then logger INFO ''Volume set'' s1 else s1)"

text \<open>\<^verbatim>\<open>command.upper()\<close> on the ASCII letters.\<close>

definition upper_char :: "char \<Rightarrow> char" where
  "upper_char c =
     (let n = (of_char c :: nat)
      in if 97 \<le> n \<and> n \<le> 122 then char_of (n - 32) else c)"

definition upper :: "string \<Rightarrow> string" where
  "upper cs = map upper_char cs"

text \<open>
  \<^verbatim>\<open>handle_command\<close>. Publishing on a missing topic name (\<^verbatim>\<open>None\<close>) raises inside
  \<^verbatim>\<open>client.publish\<close>, which the handler catches and logs.
\<close>

definition handle_command :: "string \<Rightarrow> rat \<Rightarrow> pyval option \<Rightarrow> 'a client_scheme \<Rightarrow> 'a client_scheme" where
  "handle_command command now status_data s =
     (let command = upper command
      in if command = ''MUTE'' then snd (mute s)
         else if command = ''UNMUTE'' then snd (unmute s)
         else if command = ''STATUS'' then publish_status ''online'' now s
         else if command = ''GETVOLUME'' then
           (let (vol, s1) = get_volume s
            in case topics s1 ''volume'' of
                 None \<Rightarrow> logger ERROR ''Error handling command'' s1
               | Some t \<Rightarrow> logger INFO ''Published current volume''
                            (client_publish t (Str vol) (qos s1) False s1))
         else if command = ''REFRESH_APPS'' then publish_app_volumes (refresh_applications s)
         else if command = ''GET_APP_VOLUMES'' then publish_app_volumes s
         else if command = ''GET_SYSTEM_INFO'' then
           (if system_monitor s then monitor_publish_system_status status_data s else s)
         else if command = ''SLEEP'' then
           publish_power_event ''sleep_requested'' None now
             (logger INFO ''Sleep command received'' s)
         else logger WARNING ''Unknown command'' s)"

text \<open>
  \<^verbatim>\<open>handle_app_volume_command\<close>. \<open>json_loads\<close> is \<^verbatim>\<open>json.loads\<close>, \<open>None\<close> where it
  raises \<^verbatim>\<open>JSONDecodeError\<close>. A decoded value that is no dictionary has no \<^verbatim>\<open>get\<close>, which
  raises into the last handler. \<^verbatim>\<open>set_app_volume\<close> succeeds for string names only, so
  the confirmation is published for a string.
\<close>

definition handle_app_volume_command :: "(string \<Rightarrow> pyval option) \<Rightarrow> string \<Rightarrow> rat \<Rightarrow> 'a client_scheme \<Rightarrow> 'a client_scheme" where
  "handle_app_volume_command json_loads payload now s =
     (case json_loads payload of
        None \<Rightarrow> logger WARNING ''Invalid JSON in app volume command'' s
      | Some (PDict data) \<Rightarrow>
          let app_name = dict_get data ''app'';
              vol = dict_get data ''volume''
          in if truthy app_name \<and> vol \<noteq> PNone then
               (let (ok, s1) = set_app_volume app_name vol s
                in if ok then
                     (case app_name of
                        PStr name \<Rightarrow> publish_app_volume_status name vol now
                                       (logger INFO ''Set app volume'' s1)
                      | _ \<Rightarrow> logger INFO ''Set app volume'' s1)
                   else logger WARNING ''Failed to set volume for app'' s1)
             else logger WARNING ''Invalid app volume command format'' s
      | Some _ \<Rightarrow> logger ERROR ''Error handling app volume command'' s)"

text \<open>
  \<^verbatim>\<open>on_message\<close>: the payload is \<open>None\<close> when its bytes are not UTF-8, which raises before
  the topic is looked at.
\<close>

definition on_message :: "(string \<Rightarrow> int option) \<Rightarrow> (string \<Rightarrow> pyval option) \<Rightarrow> string \<Rightarrow> string option \<Rightarrow> rat \<Rightarrow> pyval option \<Rightarrow> 'a client_scheme \<Rightarrow> 'a client_scheme" where
  "on_message py_int json_loads msg_topic msg_payload now status_data s =
     (case msg_payload of
        None \<Rightarrow> logger ERROR ''Error processing message'' s
      | Some payload \<Rightarrow>
          let s1 = logger DEBUG ''Received message'' s
          in if Some msg_topic = topics s1 ''volume'' then
               handle_volume_message py_int payload now s1
             else if Some msg_topic = topics s1 ''command'' then
               handle_command payload now status_data s1
             else if Some msg_topic = topics s1 ''app_volume'' then
               handle_app_volume_command json_loads payload now s1
             else s1)"

text \<open>
  One turn of the loop of \<^verbatim>\<open>_volume_sync_loop\<close>, between two sleeps; \<open>t1\<close> and \<open>t2\<close> are
  the two readings of the clock it takes.
\<close>

definition volume_sync_step :: "rat \<Rightarrow> rat \<Rightarrow> 'a client_scheme \<Rightarrow> 'a client_scheme" where
  "volume_sync_step t1 t2 s =
     (if connected s then
        (let (new_volume, s1) = sync_volume_from_system t1 s;
             s2 = (case new_volume of
                     None \<Rightarrow> s1
                   | Some v \<Rightarrow> logger INFO ''Synced volume change to ESP32''
                                 (publish_volume_change v s1))
         in if py_int_of_float t2 mod 30 = 0 then refresh_applications s2 else s2)
      else s)"

section \<open>The system monitor\<close>

text \<open>
  What one call of \<^verbatim>\<open>detect_power_events\<close> reads from outside: the CPU and memory
  percentages of \<^verbatim>\<open>psutil\<close> (\<open>None\<close> when it raises), the successive readings of
  \<^verbatim>\<open>time.time()\<close> in the order the call takes them, the boot time, and the metrics
  snapshot of \<^verbatim>\<open>publish_system_status\<close>.
\<close>

record probe =
  psutil_sample :: "(rat \<times> rat) option"
  clock :: "nat \<Rightarrow> rat"
  boot_time :: rat
  status_data :: "pyval option"

text \<open>The fields of \<^verbatim>\<open>PCSystemMonitor\<close> on top of its MQTT client.\<close>

record monitor = client +
  last_power_state :: string
  last_activity_time :: rat
  sleep_start_time :: "rat option"
  detect_sleep_wake :: bool
  idle_threshold_minutes :: int
  sleep_detection_method :: string
  wmi :: bool

text \<open>
  The functions that read the clock take the number \<open>k\<close> of readings the call has taken
  so far and return the new count.
\<close>

definition get_power_state_activity :: "probe \<Rightarrow> nat \<Rightarrow> 'a monitor_scheme \<Rightarrow> string \<times> nat \<times> 'a monitor_scheme" where
  "get_power_state_activity p k s =
     (case psutil_sample p of
        None \<Rightarrow> (''unknown'', k, logger ERROR ''Error getting activity-based power state'' s)
      | Some (cpu_percent, memory_percent) \<Rightarrow>
          let current_time = clock p k;
              idle_minutes = (current_time - last_activity_time s) / 60
          in if idle_minutes > of_int (idle_threshold_minutes s) then (''idle'', k + 1, s)
             else if cpu_percent < 5 \<and> memory_percent < 50 then (''low_activity'', k + 1, s)
             else if cpu_percent > 80 then (''active_high'', k + 1, s)
             else (''active'', k + 1, s))"

definition get_power_state_wmi :: "probe \<Rightarrow> nat \<Rightarrow> 'a monitor_scheme \<Rightarrow> string \<times> nat \<times> 'a monitor_scheme" where
  "get_power_state_wmi p k s = get_power_state_activity p k s"

definition get_power_state :: "probe \<Rightarrow> nat \<Rightarrow> 'a monitor_scheme \<Rightarrow> string \<times> nat \<times> 'a monitor_scheme" where
  "get_power_state p k s =
     (if sleep_detection_method s = ''wmi'' \<and> wmi s then get_power_state_wmi p k s
      else get_power_state_activity p k s)"

definition calculate_sleep_duration :: "probe \<Rightarrow> nat \<Rightarrow> 'a monitor_scheme \<Rightarrow> pyval \<times> nat \<times> 'a monitor_scheme" where
  "calculate_sleep_duration p k s =
     (case sleep_start_time s of
        None \<Rightarrow> (PInt 0, k, s)
      | Some t \<Rightarrow>
          if t \<noteq> 0 then (PFloat (clock p k - t), k + 1, s\<lparr>sleep_start_time := None\<rparr>)
          else (PInt 0, k, s))"

definition update_activity_time :: "rat \<Rightarrow> 'a monitor_scheme \<Rightarrow> 'a monitor_scheme" where
  "update_activity_time now s = s\<lparr>last_activity_time := now\<rparr>"

definition sleep_states :: "string list" where
  "sleep_states = [''sleep'', ''hibernate'', ''idle'']"

definition awake_states :: "string list" where
  "awake_states = [''active'', ''active_high'', ''low_activity'']"

definition sleep_branch :: "probe \<Rightarrow> string \<Rightarrow> nat \<Rightarrow> 'a monitor_scheme \<Rightarrow> nat \<times> 'a monitor_scheme" where
  "sleep_branch p current_state k s =
     (let s1 = logger INFO ''System entering sleep/idle state'' s;
          s2 = s1\<lparr>sleep_start_time := Some (clock p k)\<rparr>;
          sleep_event = [(''event'', PStr ''sleep_detected''),
            (''sleep_type'', PStr current_state),
            (''timestamp'', PFloat (clock p (k + 1))),
            (''last_activity'', PFloat (last_activity_time s2)),
            (''idle_duration'', PFloat ((clock p (k + 2) - last_activity_time s2) / 60))]
      in (k + 4, publish_power_event ''sleep_detected'' (Some sleep_event) (clock p (k + 3)) s2))"

definition wake_branch :: "probe \<Rightarrow> nat \<Rightarrow> 'a monitor_scheme \<Rightarrow> 'a monitor_scheme" where
  "wake_branch p k s =
     (let s1 = logger INFO ''System wake detected'' s;
          (sleep_duration, k1, s2) = calculate_sleep_duration p (k + 1) s1;
          wake_event = [(''event'', PStr ''wake_detected''),
            (''wake_source'', PStr ''user_activity''),
            (''timestamp'', PFloat (clock p k)),
            (''sleep_duration'', sleep_duration)];
          s3 = publish_power_event ''wake_detected'' (Some wake_event) (clock p k1) s2;
          s4 = s3\<lparr>last_activity_time := clock p (k1 + 1)\<rparr>;
          s5 = refresh_applications s4;
          (vol, s6) = get_volume s5;
          s7 = publish_volume_change vol s6
      in monitor_publish_system_status (status_data p) s7)"

definition detect_power_events :: "probe \<Rightarrow> 'a monitor_scheme \<Rightarrow> 'a monitor_scheme" where
  "detect_power_events p s =
     (if \<not> detect_sleep_wake s then s
      else
        let (current_state, k, s0) = get_power_state p 0 s
        in if current_state \<noteq> last_power_state s0 then
             (let s1 = logger INFO ''Power state changed'' s0;
                  power_event = [(''event'', PStr ''state_change''),
                    (''from_state'', PStr (last_power_state s1)),
                    (''to_state'', PStr current_state),
                    (''timestamp'', PFloat (clock p k)),
                    (''system_uptime'', PFloat (clock p (k + 1) - boot_time p)),
                    (''detection_method'', PStr (sleep_detection_method s1))];
                  s2 = publish_power_event ''state_change'' (Some power_event) (clock p (k + 2)) s1;
                  (k3, s3) =
                    (if current_state \<in> set sleep_states \<and> last_power_state s2 \<in> set awake_states
                     then sleep_branch p current_state (k + 3) s2
                     else (k + 3, s2));
                  s4 =
                    (if last_power_state s3 \<in> set sleep_states \<and> current_state \<in> set awake_states
                     then wake_branch p k3 s3
                     else s3)
              in s4\<lparr>last_power_state := current_state\<rparr>)
           else s0)"

text \<open>A run of the monitor: polls of \<^verbatim>\<open>detect_power_events\<close> and activity reported from outside.\<close>

datatype monitor_event = Poll probe | Activity rat

fun monitor_step :: "monitor_event \<Rightarrow> 'a monitor_scheme \<Rightarrow> 'a monitor_scheme" where
  "monitor_step (Poll p) s = detect_power_events p s"
| "monitor_step (Activity now) s = update_activity_time now s"

definition monitor_run :: "monitor_event list \<Rightarrow> 'a monitor_scheme \<Rightarrow> 'a monitor_scheme" where
  "monitor_run evs s = fold monitor_step evs s"

section \<open>A concrete installation\<close>

text \<open>
  The default topics of \<^verbatim>\<open>constants.py\<close>, the default settings (rate limit 0.1 s, sync
  interval 2 s, idle threshold 30 minutes), a configured broker, and two monitored
  applications with a running audio session each; the system volume is at 50 percent.
\<close>

definition demo_topics :: "string \<rightharpoonup> string" where
  "demo_topics = map_of
     [(''volume'', ''homecontrol/volume''), (''command'', ''homecontrol/command''),
      (''status'', ''homecontrol/pc/status''), (''pc_volume'', ''homecontrol/pc/volume''),
      (''app_volume'', ''homecontrol/pc/app_volume''), (''pc_power'', ''homecontrol/pc/power''),
      (''pc_system'', ''homecontrol/pc/system'')]"

definition demo :: monitor where
  "demo = \<lparr>device_ok = True, master_scalar = 1 / 2, mute_state = False,
     sessions = [(Some ''chrome.exe'', 0), (Some ''spotify.exe'', 1)],
     session_scalar = [0 \<mapsto> 1 / 2, 1 \<mapsto> 1 / 4],
     set_calls = [],
     monitored_apps = [''chrome.exe'', ''spotify.exe''],
     update_rate_limit = 1 / 10, sync_interval = 2, last_update = 0, current_volume = 50,
     app_volumes = [(''chrome.exe'', \<lparr>control = 0, volume = PInt 50\<rparr>),
                    (''spotify.exe'', \<lparr>control = 1, volume = PInt 25\<rparr>)],
     last_sync = 0, logs = [],
     connected = True, running = True, broker = Some ''192.168.1.10'', port = 1883,
     keepalive = 60, client_id = ''PCVolumeControl'', qos = 1, retain = True,
     topics = demo_topics, system_monitor = True, broker_reachable = True,
     connect_calls = [], published = [], power_event_calls = [],
     last_power_state = ''active'', last_activity_time = 0, sleep_start_time = None,
     detect_sleep_wake = True, idle_threshold_minutes = 30,
     sleep_detection_method = ''activity'', wmi = False\<rparr>"

text \<open>Decoders that know the payloads of the examples.\<close>

definition demo_int :: "string \<Rightarrow> int option" where
  "demo_int payload =
     (if payload = ''150'' then Some 150 else if payload = ''55'' then Some 55 else None)"

definition demo_loads :: "string \<Rightarrow> pyval option" where
  \<open>demo_loads payload =
     (if payload = ''{"app": "chrome.exe", "volume": 150}''
        then Some (PDict [(''app'', PStr ''chrome.exe''), (''volume'', PInt 150)])
      else if payload = ''{"app": "chrome.exe", "volume": 30}''
        then Some (PDict [(''app'', PStr ''chrome.exe''), (''volume'', PInt 30)])
      else if payload = ''{"app": "chrome.exe", "volume": 40}''
        then Some (PDict [(''app'', PStr ''chrome.exe''), (''volume'', PInt 40)])
      else if payload = ''{"app": "missing.exe", "volume": 50}''
        then Some (PDict [(''app'', PStr ''missing.exe''), (''volume'', PInt 50)])
      else if payload = ''{"volume": 50}''
        then Some (PDict [(''volume'', PInt 50)])
      else None)\<close>

section \<open>Notions used by the properties\<close>

text \<open>
  When \<^verbatim>\<open>set_app_volume\<close> reaches the volume control: the name is a string with an entry
  in \<^verbatim>\<open>self.app_volumes\<close> whose session is alive, and the level is a number.
\<close>

definition app_target_ready :: "pyval \<Rightarrow> 'a audio_scheme \<Rightarrow> bool" where
  "app_target_ready app_name s =
     (case app_name of
        PStr name \<Rightarrow>
          (case map_option control (map_of (app_volumes s) name) of
             None \<Rightarrow> False
           | Some h \<Rightarrow> session_scalar s h \<noteq> None)
      | _ \<Rightarrow> False)"

definition level_ok :: "pyval \<Rightarrow> bool" where
  "level_ok level = (case clamp_level level of None \<Rightarrow> False | Some lv \<Rightarrow> py_num lv \<noteq> None)"

text \<open>Two per-app commands for the same application, 10 ms apart.\<close>

definition c3_first :: monitor where
  \<open>c3_first = handle_app_volume_command demo_loads ''{"app": "chrome.exe", "volume": 30}'' 1000 demo\<close>

definition c3_second :: monitor where
  \<open>c3_second =
     handle_app_volume_command demo_loads ''{"app": "chrome.exe", "volume": 40}'' (1000 + 1 / 100) c3_first\<close>

text \<open>
  The value last published on the \<^verbatim>\<open>pc_volume\<close> topic, if any: what the specification
  calls the last-published value.
\<close>

definition last_published_volume :: "'a client_scheme \<Rightarrow> int option" where
  "last_published_volume s =
     (case filter (\<lambda>m. Some (topic m) = topics s ''pc_volume'') (published s) of
        [] \<Rightarrow> None
      | ms \<Rightarrow> (case body (last ms) of Str v \<Rightarrow> Some v | Json _ \<Rightarrow> None))"

text \<open>
  A run of the installation: the volume is changed outside to 62 percent and the sync
  loop publishes it; the remote sets 55 percent; the volume is changed outside to
  62 percent again; the sync loop takes its next turn.
\<close>

definition c4_s1 :: monitor where
  "c4_s1 = volume_sync_step 10 11 (demo\<lparr>master_scalar := 5 / 8\<rparr>)"

definition c4_s2 :: monitor where
  "c4_s2 = on_message demo_int demo_loads ''homecontrol/volume'' (Some ''55'') 20 None c4_s1"

definition c4_s3 :: monitor where
  "c4_s3 = c4_s2\<lparr>master_scalar := 5 / 8\<rparr>"

definition c4_s4 :: monitor where
  "c4_s4 = volume_sync_step 30 31 c4_s3"


text \<open>The power state a poll samples, and the details of its \<^verbatim>\<open>state_change\<close> event.\<close>

definition sampled :: "probe \<Rightarrow> 'a monitor_scheme \<Rightarrow> string" where
  "sampled p s = fst (get_power_state p 0 s)"

definition state_change_details :: "probe \<Rightarrow> string \<Rightarrow> string \<Rightarrow> string \<Rightarrow> (string \<times> pyval) list" where
  "state_change_details p from_state to_state method =
     [(''event'', PStr ''state_change''), (''from_state'', PStr from_state),
      (''to_state'', PStr to_state), (''timestamp'', PFloat (clock p 1)),
      (''system_uptime'', PFloat (clock p 2 - boot_time p)),
      (''detection_method'', PStr method)]"

text \<open>
  Polls of a machine at 10 percent CPU and 40 percent memory: two taken more than 30
  minutes after the last activity, one taken 5 seconds after activity at 2100, and one
  whose clock was set back below the readings of the first.
\<close>

definition p_idle :: probe where
  "p_idle = \<lparr>psutil_sample = Some (10, 40), clock = (\<lambda>i. 2000 + of_nat i), boot_time = 100,
     status_data = None\<rparr>"

definition p_idle2 :: probe where
  "p_idle2 = \<lparr>psutil_sample = Some (10, 40), clock = (\<lambda>i. 2010 + of_nat i), boot_time = 100,
     status_data = None\<rparr>"

definition q_wake :: probe where
  "q_wake = \<lparr>psutil_sample = Some (10, 40), clock = (\<lambda>i. 2105 + of_nat i), boot_time = 100,
     status_data = None\<rparr>"

definition q_back :: probe where
  "q_back = \<lparr>psutil_sample = Some (10, 40), clock = (\<lambda>i. 1900 + of_nat i), boot_time = 100,
     status_data = None\<rparr>"

definition c9_off :: monitor where
  "c9_off = demo\<lparr>detect_sleep_wake := False\<rparr>"

section \<open>Properties\<close>

subsection \<open>Auxiliary facts\<close>



lemma scalar_29: "scalar_of_level 29 = 5224175567749775 / 18014398509481984"
  by code_simp

lemma percent_29: "percent_of_scalar (5224175567749775 / 18014398509481984) = 28"
  by code_simp

lemma scalar_30_40: "scalar_of_level 30 \<noteq> scalar_of_level 40"
  by code_simp

lemma clamp_level_PInt: "clamp_level (PInt v) = Some (PInt (clamp v 0 100))"
  by (simp add: clamp_level_def py_min_def py_max_def clamp_def max_def min_def)

lemma set_app_volume_controls:
  "map_option control (map_of (app_volumes (snd (set_app_volume a l s))) n)
     = map_option control (map_of (app_volumes s) n)"
  by (simp add: set_app_volume_def logger_def Let_def update_conv' split: pyval.splits option.splits)

lemma set_app_volume_live:
  "(session_scalar (snd (set_app_volume a l s)) h = None) = (session_scalar s h = None)"
  by (simp add: set_app_volume_def logger_def Let_def split: pyval.splits option.splits)

lemma set_app_volume_accepts:
  "fst (set_app_volume app_name level s) = (app_target_ready app_name s \<and> level_ok level)"
  by (simp add: set_app_volume_def app_target_ready_def level_ok_def Let_def
      split: pyval.splits option.splits)

lemma ready_after_app_set:
  "app_target_ready b (snd (set_app_volume a l s)) = app_target_ready b s"
  by (simp add: app_target_ready_def set_app_volume_controls set_app_volume_live
      split: pyval.splits option.splits)

lemma set_volume_frame:
  "app_volumes (snd (set_volume v t s)) = app_volumes s"
  "session_scalar (snd (set_volume v t s)) = session_scalar s"
  by (simp_all add: set_volume_def logger_def Let_def)

lemma ready_after_set_volume:
  "app_target_ready a (snd (set_volume v t s)) = app_target_ready a s"
  by (simp add: app_target_ready_def set_volume_frame split: pyval.splits option.splits)

lemma set_volume_after_app_set:
  "fst (set_volume v t (snd (set_app_volume a l s))) = fst (set_volume v t s)"
  by (simp add: set_app_volume_def set_volume_def logger_def Let_def
      split: pyval.splits option.splits)

subsection \<open>System volume\<close>



text \<open>
  C2. After a system volume set that was applied at time \<open>t1\<close>, a set arriving at \<open>t2\<close>
  with \<open>t2 - t1\<close> below the rate limit returns failure and leaves the whole state,
  the endpoint included, as it was.
\<close>

theorem C2_second_set_within_limit_rejected:
  assumes "set_volume v1 t1 s = (True, s1)" and "t2 - t1 < update_rate_limit s"
  shows "set_volume v2 t2 s1 = (False, s1)"
  using assms
  by (auto simp: set_volume_def logger_def Let_def split: if_splits)

theorem C2_witness:
  "fst (set_volume 55 1000 demo)
   \<and> (1000 + 1 / 20) - 1000 < update_rate_limit demo
   \<and> set_volume 70 (1000 + 1 / 20) (snd (set_volume 55 1000 demo)) = (False, snd (set_volume 55 1000 demo))"
proof -
  have a: "set_volume 55 1000 demo = (True, snd (set_volume 55 1000 demo))"
    by (simp add: set_volume_def demo_def Let_def)
  have b: "(1000 + 1 / 20) - 1000 < update_rate_limit demo" by (simp add: demo_def)
  have c: "fst (set_volume 55 1000 demo)"
    by (simp add: set_volume_def demo_def Let_def)
  show ?thesis using C2_second_set_within_limit_rejected [OF a b, of 70] b c by simp
qed

subsection \<open>The rate limiter and its targets\<close>

text \<open>
  C3, as the code has it. Only \<^verbatim>\<open>set_volume\<close> is rate limited. Whether a per-app set is
  applied depends on its target and its level alone, so it is the same after any other
  per-app set (to the same or to another application) and after any system set,
  however soon; and a per-app set leaves the outcome of a system set as it was.
\<close>

theorem C3_only_system_sets_rate_limited:
  "fst (set_app_volume b l' (snd (set_app_volume a l s))) = fst (set_app_volume b l' s)
   \<and> fst (set_volume v t (snd (set_app_volume a l s))) = fst (set_volume v t s)
   \<and> fst (set_app_volume a l (snd (set_volume v t s))) = fst (set_app_volume a l s)"
  by (simp add: set_app_volume_accepts ready_after_app_set ready_after_set_volume
      set_volume_after_app_set)

text \<open>
  C3 as stated fails: the second of two per-app commands for the same application,
  10 ms after the first with a rate limit of 100 ms, reaches the volume control.
\<close>

theorem C3_counterexample:
  "(1000 + 1 / 100) - 1000 < update_rate_limit c3_first
   \<and> set_calls c3_first = [SetMasterVolume 0 (scalar_of_level 30)]
   \<and> set_calls c3_second
        = [SetMasterVolume 0 (scalar_of_level 30), SetMasterVolume 0 (scalar_of_level 40)]
   \<and> session_scalar c3_second 0 = Some (scalar_of_level 40)
   \<and> session_scalar c3_second 0 \<noteq> session_scalar c3_first 0"
  using scalar_30_40
  by (simp add: c3_second_def c3_first_def handle_app_volume_command_def demo_loads_def
      dict_get_def set_app_volume_def clamp_level_PInt clamp_def publish_app_volume_status_def
      client_publish_def logger_def demo_def Let_def)

subsection \<open>Connecting\<close>

text \<open>
  C7. With no broker address, an empty one or the placeholder, \<^verbatim>\<open>connect\<close> returns
  failure and calls neither \<^verbatim>\<open>client.connect\<close> nor \<^verbatim>\<open>client.publish\<close>.
\<close>

theorem C7_unconfigured_broker_fails_without_network:
  assumes "broker s = None \<or> broker s = Some [] \<or> broker s = Some ''192.168.1.xxx''"
  shows "fst (connect s) = False \<and> connect_calls (snd (connect s)) = connect_calls s
         \<and> published (snd (connect s)) = published s"
  using assms by (auto simp: connect_def logger_def)

theorem C7_witness:
  "broker (demo\<lparr>broker := Some ''192.168.1.xxx''\<rparr>) = Some ''192.168.1.xxx''
   \<and> fst (connect (demo\<lparr>broker := Some ''192.168.1.xxx''\<rparr>)) = False
   \<and> connect_calls (snd (connect (demo\<lparr>broker := Some ''192.168.1.xxx''\<rparr>))) = []"
  using C7_unconfigured_broker_fails_without_network [of "demo\<lparr>broker := Some ''192.168.1.xxx''\<rparr>"]
  by (simp add: demo_def)

subsection \<open>Per-application volume\<close>

lemma round_trip_57_58:
  "percent_of_scalar (scalar_of_level 57) = 56" "percent_of_scalar (scalar_of_level 58) = 57"
  by code_simp+

text \<open>
  C8 fails on the code: setting the volume of a monitored application to 29 and
  reading it back gives 28, with an endpoint that returns the very scalar it was given.
  \<^verbatim>\<open>29 / 100.0\<close> is the float just below 0.29, its product with 100 is the float just
  below 29, and \<^verbatim>\<open>int\<close> truncates. The same happens at 57 and 58.
\<close>

theorem C8_round_trip_fails_at_29:
  "fst (set_app_volume (PStr ''chrome.exe'') (PInt 29) demo)
   \<and> fst (get_app_volume ''chrome.exe'' (snd (set_app_volume (PStr ''chrome.exe'') (PInt 29) demo)))
       = Some 28"
  by (simp add: set_app_volume_def get_app_volume_def demo_def clamp_level_def py_min_def py_max_def
      logger_def Let_def scalar_29 percent_29)

subsection \<open>What a scan of the audio sessions leaves alone\<close>

lemma scan_sessions_client_frame:
  "published (snd (scan_sessions xs s)) = published s"
  "topics (snd (scan_sessions xs s)) = topics s"
  "qos (snd (scan_sessions xs s)) = qos s"
  "power_event_calls (snd (scan_sessions xs s)) = power_event_calls s"
  by (induction xs s rule: scan_sessions.induct; simp add: logger_def split: option.splits)+

lemma refresh_client_frame:
  "published (refresh_applications s) = published s"
  "topics (refresh_applications s) = topics s"
  "qos (refresh_applications s) = qos s"
  "power_event_calls (refresh_applications s) = power_event_calls s"
  using scan_sessions_client_frame [of "sessions s" "s\<lparr>app_volumes := []\<rparr>"]
  by (simp_all add: refresh_applications_def scan_applications_def logger_def Let_def split_beta)

subsection \<open>The sync loop\<close>

text \<open>
  C4, as the code has it. A turn of the sync loop publishes at most one message, on the
  \<^verbatim>\<open>pc_volume\<close> topic, and only when the client is connected and the volume just read
  differs by more than 1 from \<^verbatim>\<open>current_volume\<close>, the volume the controller last set or
  last saw; the message carries the volume just read.
\<close>

theorem C4_sync_publishes_only_beyond_threshold:
  assumes "published (volume_sync_step t1 t2 s) \<noteq> published s"
  shows "connected s
     \<and> \<bar>fst (get_volume s) - current_volume s\<bar> > 1
     \<and> topic_set (topics s ''pc_volume'')
     \<and> published (volume_sync_step t1 t2 s)
         = published s @ [\<lparr>topic = the (topics s ''pc_volume''), body = Str (fst (get_volume s)),
                            msg_qos = qos s, msg_retain = False\<rparr>]"
  using assms
  by (auto simp: volume_sync_step_def sync_volume_from_system_def get_volume_def
      publish_volume_change_def client_publish_def logger_def Let_def refresh_client_frame
      split: if_splits prod.splits option.splits)

lemma percent_5_8: "percent_of_scalar (5 / 8) = 62"
  by code_simp

lemma int_of_11_31: "py_int_of_float 11 mod 30 = 11" "py_int_of_float 31 mod 30 = 1"
  by (simp_all add: py_int_of_float_def)

lemma c4_s1_eq:
  "c4_s1 = demo\<lparr>master_scalar := 5 / 8, current_volume := 62, last_sync := 10,
       logs := [(DEBUG, ''System volume changed externally''), (DEBUG, ''Published volume change''),
                (INFO, ''Synced volume change to ESP32'')],
       published := [\<lparr>topic = ''homecontrol/pc/volume'', body = Str 62, msg_qos = 1, msg_retain = False\<rparr>]\<rparr>"
  by (simp add: c4_s1_def volume_sync_step_def sync_volume_from_system_def get_volume_def
      publish_volume_change_def client_publish_def logger_def Let_def percent_5_8 int_of_11_31
      topic_set_def demo_def demo_topics_def)

lemma c4_s3_facts:
  "connected c4_s3" "device_ok c4_s3" "master_scalar c4_s3 = 5 / 8" "current_volume c4_s3 = 55"
  "last_sync c4_s3 = 10" "sync_interval c4_s3 = 2" "topics c4_s3 = demo_topics" "qos c4_s3 = 1"
  "published c4_s3 = [\<lparr>topic = ''homecontrol/pc/volume'', body = Str 62, msg_qos = 1, msg_retain = False\<rparr>]"
  by (simp_all add: c4_s3_def c4_s2_def c4_s1_eq on_message_def handle_volume_message_def
      set_volume_def logger_def Let_def demo_int_def demo_def demo_topics_def)

theorem C4_witness:
  "published c4_s4 \<noteq> published c4_s3
   \<and> connected c4_s3
   \<and> \<bar>fst (get_volume c4_s3) - current_volume c4_s3\<bar> > 1
   \<and> published c4_s4 = published c4_s3 @
        [\<lparr>topic = ''homecontrol/pc/volume'', body = Str 62, msg_qos = 1, msg_retain = False\<rparr>]"
proof -
  have a: "published (volume_sync_step 30 31 c4_s3) \<noteq> published c4_s3"
    by (simp add: volume_sync_step_def
      sync_volume_from_system_def get_volume_def publish_volume_change_def client_publish_def
      logger_def Let_def percent_5_8 int_of_11_31 topic_set_def c4_s3_facts demo_topics_def)
  have b: "fst (get_volume c4_s3) = 62" by (simp add: get_volume_def c4_s3_facts percent_5_8)
  show ?thesis
    using C4_sync_publishes_only_beyond_threshold [OF a] a b
    by (simp add: c4_s4_def c4_s3_facts demo_topics_def)
qed

text \<open>
  C4 as stated fails: in the run above the last value published on \<^verbatim>\<open>pc_volume\<close> is 62,
  the volume read by the next turn is 62, a difference of 0, and the turn publishes 62
  again, because the remote had set 55 in between.
\<close>

theorem C4_counterexample:
  "last_published_volume c4_s3 = Some 62
   \<and> fst (get_volume c4_s3) = 62
   \<and> \<not> \<bar>fst (get_volume c4_s3) - 62\<bar> > 1
   \<and> published c4_s4 = published c4_s3 @
        [\<lparr>topic = ''homecontrol/pc/volume'', body = Str 62, msg_qos = 1, msg_retain = False\<rparr>]"
  by (simp add: c4_s4_def last_published_volume_def volume_sync_step_def
      sync_volume_from_system_def get_volume_def publish_volume_change_def client_publish_def
      logger_def Let_def percent_5_8 int_of_11_31 topic_set_def c4_s3_facts demo_topics_def)

subsection \<open>Confirmations\<close>












subsection \<open>Per-app commands that are dropped\<close>

lemma dict_get_absent: "k \<notin> fst ` set d \<Longrightarrow> dict_get d k = PNone"
  by (simp add: dict_get_def map_of_eq_None_iff [THEN iffD2])

lemma set_app_volume_unknown:
  assumes "\<And>name. a = PStr name \<Longrightarrow> map_of (app_volumes s) name = None"
  shows "set_app_volume a l s = (False, logger WARNING ''Application not found'' s)
       \<or> set_app_volume a l s = (False, logger ERROR ''Error setting volume for app'' s)"
  using assms by (cases a) (simp_all add: set_app_volume_def)

lemma dropped_command_only_logs:
  assumes "json_loads payload = Some (PDict d)"
    and "''app'' \<notin> fst ` set d \<or> ''volume'' \<notin> fst ` set d
         \<or> \<not> (\<exists>name. dict_get d ''app'' = PStr name \<and> name \<in> fst ` set (app_volumes s))"
  shows "\<exists>ls. ls \<noteq> [] \<and> handle_app_volume_command json_loads payload now s = s\<lparr>logs := logs s @ ls\<rparr>"
proof (cases "truthy (dict_get d ''app'') \<and> dict_get d ''volume'' \<noteq> PNone")
  case False
  then have "handle_app_volume_command json_loads payload now s
      = s\<lparr>logs := logs s @ [(WARNING, ''Invalid app volume command format'')]\<rparr>"
    using assms(1) by (auto simp: handle_app_volume_command_def logger_def Let_def)
  then show ?thesis by blast
next
  case True
  then have "dict_get d ''app'' \<noteq> PNone" "dict_get d ''volume'' \<noteq> PNone" by auto
  with assms(2) dict_get_absent
  have "\<not> (\<exists>name. dict_get d ''app'' = PStr name \<and> name \<in> fst ` set (app_volumes s))"
    by blast
  then have none: "\<And>name. dict_get d ''app'' = PStr name \<Longrightarrow> map_of (app_volumes s) name = None"
    by (simp add: map_of_eq_None_iff)
  from set_app_volume_unknown [OF none, of "dict_get d ''app''" "dict_get d ''volume''"]
  have "\<exists>l. set_app_volume (dict_get d ''app'') (dict_get d ''volume'') s
             = (False, s\<lparr>logs := logs s @ [l]\<rparr>)"
    by (auto simp: logger_def)
  then obtain l where "set_app_volume (dict_get d ''app'') (dict_get d ''volume'') s
             = (False, s\<lparr>logs := logs s @ [l]\<rparr>)" by blast
  then have "handle_app_volume_command json_loads payload now s
      = s\<lparr>logs := logs s @ [l, (WARNING, ''Failed to set volume for app'')]\<rparr>"
    using assms(1) True by (simp add: handle_app_volume_command_def logger_def Let_def)
  then show ?thesis by blast
qed

text \<open>
  C6. A per-app payload that decodes to a dictionary without the \<^verbatim>\<open>app\<close> key or without
  the \<^verbatim>\<open>volume\<close> key, or whose \<^verbatim>\<open>app\<close> is no key of \<^verbatim>\<open>self.app_volumes\<close>: no call that
  changes the endpoint is made, the endpoint is as before, nothing is published, and at
  least one line is logged; nothing else changes.
\<close>

theorem C6_invalid_app_command_dropped:
  assumes "json_loads payload = Some (PDict d)"
    and "''app'' \<notin> fst ` set d \<or> ''volume'' \<notin> fst ` set d
         \<or> \<not> (\<exists>name. dict_get d ''app'' = PStr name \<and> name \<in> fst ` set (app_volumes s))"
  shows "set_calls (handle_app_volume_command json_loads payload now s) = set_calls s
     \<and> session_scalar (handle_app_volume_command json_loads payload now s) = session_scalar s
     \<and> master_scalar (handle_app_volume_command json_loads payload now s) = master_scalar s
     \<and> published (handle_app_volume_command json_loads payload now s) = published s
     \<and> (\<exists>ls. ls \<noteq> [] \<and> handle_app_volume_command json_loads payload now s = s\<lparr>logs := logs s @ ls\<rparr>)"
proof -
  from dropped_command_only_logs [where json_loads = json_loads and payload = payload
      and d = d and s = s and now = now] assms obtain ls where
    "ls \<noteq> []" "handle_app_volume_command json_loads payload now s = s\<lparr>logs := logs s @ ls\<rparr>"
    by blast
  then show ?thesis by auto
qed

theorem C6_witness:
  \<open>demo_loads ''{"app": "missing.exe", "volume": 50}''
     = Some (PDict [(''app'', PStr ''missing.exe''), (''volume'', PInt 50)])
   \<and> ''missing.exe'' \<notin> fst ` set (app_volumes demo)
   \<and> set_calls (handle_app_volume_command demo_loads
        ''{"app": "missing.exe", "volume": 50}'' 1000 demo) = []
   \<and> published (handle_app_volume_command demo_loads
        ''{"app": "missing.exe", "volume": 50}'' 1000 demo) = []
   \<and> logs (handle_app_volume_command demo_loads
        ''{"app": "missing.exe", "volume": 50}'' 1000 demo) \<noteq> []\<close>
proof -
  have a: \<open>demo_loads ''{"app": "missing.exe", "volume": 50}''
     = Some (PDict [(''app'', PStr ''missing.exe''), (''volume'', PInt 50)])\<close>
    by (simp add: demo_loads_def)
  have b: "''missing.exe'' \<notin> fst ` set (app_volumes demo)" by (simp add: demo_def)
  have c: "dict_get [(''app'', PStr ''missing.exe''), (''volume'', PInt 50)] ''app'' = PStr ''missing.exe''"
    by (simp add: dict_get_def)
  have e: "set_calls demo = []" "published demo = []" "logs demo = []" by (simp_all add: demo_def)
  show ?thesis
    using C6_invalid_app_command_dropped [where json_loads = demo_loads
        and payload = \<open>''{"app": "missing.exe", "volume": 50}''\<close>
        and d = "[(''app'', PStr ''missing.exe''), (''volume'', PInt 50)]" and s = demo and now = 1000]
      a b c e by auto
qed




subsection \<open>Sleep and wake\<close>

lemma get_power_state_cases:
  "get_power_state p k s = (''unknown'', k, logger ERROR ''Error getting activity-based power state'' s)
   \<or> (\<exists>st. get_power_state p k s = (st, k + 1, s)
          \<and> st \<in> {''idle'', ''low_activity'', ''active_high'', ''active''})"
  by (auto simp: get_power_state_def get_power_state_wmi_def get_power_state_activity_def Let_def
      split: option.splits)

lemma sampled_not_unknown:
  assumes "sampled p s \<noteq> ''unknown''"
  shows "get_power_state p 0 s = (sampled p s, 1, s)"
  using assms get_power_state_cases [of p 0 s] by (auto simp: sampled_def)

lemma sampled_cong:
  assumes "last_activity_time s' = last_activity_time s"
    and "idle_threshold_minutes s' = idle_threshold_minutes s"
    and "sleep_detection_method s' = sleep_detection_method s" and "wmi s' = wmi s"
  shows "sampled p s' = sampled p s"
  using assms
  by (simp add: sampled_def get_power_state_def get_power_state_wmi_def
      get_power_state_activity_def Let_def split: option.splits)

lemma idle_poll_noop:
  assumes "detect_sleep_wake s" and "last_power_state s = ''idle''" and "sampled p s = ''idle''"
  shows "detect_power_events p s = s"
proof -
  have "get_power_state p 0 s = (''idle'', 1, s)"
    using sampled_not_unknown [of p s] assms(3) by simp
  then show ?thesis using assms(1,2) by (simp add: detect_power_events_def)
qed

lemma idle_polls_noop:
  assumes "detect_sleep_wake s" and "last_power_state s = ''idle''"
    and "\<forall>x \<in> set ps. sampled x s = ''idle''"
  shows "fold monitor_step (map Poll ps) s = s"
  using assms by (induction ps) (simp_all add: idle_poll_noop)

lemma publish_power_event_frame:
  "power_event_calls (publish_power_event e d now s) = power_event_calls s @ [(e, d)]"
  "last_power_state (publish_power_event e d now s) = last_power_state s"
  "last_activity_time (publish_power_event e d now s) = last_activity_time s"
  "sleep_start_time (publish_power_event e d now s) = sleep_start_time s"
  "detect_sleep_wake (publish_power_event e d now s) = detect_sleep_wake s"
  "idle_threshold_minutes (publish_power_event e d now s) = idle_threshold_minutes s"
  "sleep_detection_method (publish_power_event e d now s) = sleep_detection_method s"
  "wmi (publish_power_event e d now s) = wmi s"
  by (simp_all add: publish_power_event_def client_publish_def logger_def Let_def)

lemma sleep_branch_frame:
  "fst (sleep_branch p st k s) = k + 4"
  "power_event_calls (snd (sleep_branch p st k s)) = power_event_calls s @
     [(''sleep_detected'', Some [(''event'', PStr ''sleep_detected''),
        (''sleep_type'', PStr st), (''timestamp'', PFloat (clock p (k + 1))),
        (''last_activity'', PFloat (last_activity_time s)),
        (''idle_duration'', PFloat ((clock p (k + 2) - last_activity_time s) / 60))])]"
  "last_power_state (snd (sleep_branch p st k s)) = last_power_state s"
  "sleep_start_time (snd (sleep_branch p st k s)) = Some (clock p k)"
  "detect_sleep_wake (snd (sleep_branch p st k s)) = detect_sleep_wake s"
  "last_activity_time (snd (sleep_branch p st k s)) = last_activity_time s"
  "idle_threshold_minutes (snd (sleep_branch p st k s)) = idle_threshold_minutes s"
  "sleep_detection_method (snd (sleep_branch p st k s)) = sleep_detection_method s"
  "wmi (snd (sleep_branch p st k s)) = wmi s"
  by (simp_all add: sleep_branch_def Let_def publish_power_event_frame logger_def)

text \<open>A poll that samples idle after an awake state: what it emits and what it leaves.\<close>

lemma sleep_poll:
  assumes "detect_sleep_wake s" and "last_power_state s \<in> set awake_states"
    and "sampled p s = ''idle''"
  shows "power_event_calls (detect_power_events p s) = power_event_calls s @
           [(''state_change'', Some (state_change_details p (last_power_state s) ''idle''
                                       (sleep_detection_method s))),
            (''sleep_detected'', Some [(''event'', PStr ''sleep_detected''),
               (''sleep_type'', PStr ''idle''), (''timestamp'', PFloat (clock p 5)),
               (''last_activity'', PFloat (last_activity_time s)),
               (''idle_duration'', PFloat ((clock p 6 - last_activity_time s) / 60))])]"
    and "last_power_state (detect_power_events p s) = ''idle''"
    and "sleep_start_time (detect_power_events p s) = Some (clock p 4)"
    and "detect_sleep_wake (detect_power_events p s)"
    and "last_activity_time (detect_power_events p s) = last_activity_time s"
    and "idle_threshold_minutes (detect_power_events p s) = idle_threshold_minutes s"
    and "sleep_detection_method (detect_power_events p s) = sleep_detection_method s"
    and "wmi (detect_power_events p s) = wmi s"
proof -
  have g: "get_power_state p 0 s = (''idle'', 1, s)"
    using sampled_not_unknown [of p s] assms(3) by simp
  have ne: "''idle'' \<noteq> last_power_state s" and aw: "last_power_state s \<in> set awake_states"
    using assms(2) by (auto simp: awake_states_def)
  have idle: "''idle'' \<in> set sleep_states" "''idle'' \<notin> set awake_states"
    by (simp_all add: sleep_states_def awake_states_def)
  show "power_event_calls (detect_power_events p s) = power_event_calls s @
           [(''state_change'', Some (state_change_details p (last_power_state s) ''idle''
                                       (sleep_detection_method s))),
            (''sleep_detected'', Some [(''event'', PStr ''sleep_detected''),
               (''sleep_type'', PStr ''idle''), (''timestamp'', PFloat (clock p 5)),
               (''last_activity'', PFloat (last_activity_time s)),
               (''idle_duration'', PFloat ((clock p 6 - last_activity_time s) / 60))])]"
    and "last_power_state (detect_power_events p s) = ''idle''"
    and "sleep_start_time (detect_power_events p s) = Some (clock p 4)"
    and "detect_sleep_wake (detect_power_events p s)"
    and "last_activity_time (detect_power_events p s) = last_activity_time s"
    and "idle_threshold_minutes (detect_power_events p s) = idle_threshold_minutes s"
    and "sleep_detection_method (detect_power_events p s) = sleep_detection_method s"
    and "wmi (detect_power_events p s) = wmi s"
    using assms(1) ne aw idle
    by (simp_all add: detect_power_events_def g Let_def split_beta publish_power_event_frame
        sleep_branch_frame state_change_details_def logger_def eval_nat_numeral)
qed

lemma wake_tail_frame:
  "power_event_calls (monitor_publish_system_status sd s) = power_event_calls s"
  "power_event_calls (publish_volume_change v s) = power_event_calls s"
  "power_event_calls (snd (get_volume s)) = power_event_calls s"
  by (simp_all add: monitor_publish_system_status_def publish_system_status_def
      publish_volume_change_def get_volume_def client_publish_def logger_def split: option.splits)

lemma calculate_sleep_duration_frame:
  "fst (calculate_sleep_duration p k s)
     = (case sleep_start_time s of
          None \<Rightarrow> PInt 0
        | Some t \<Rightarrow> if t \<noteq> 0 then PFloat (clock p k - t) else PInt 0)"
  "power_event_calls (snd (snd (calculate_sleep_duration p k s))) = power_event_calls s"
  by (simp_all add: calculate_sleep_duration_def split: option.splits)

lemma wake_branch_calls:
  "power_event_calls (wake_branch p k s) = power_event_calls s @
     [(''wake_detected'', Some [(''event'', PStr ''wake_detected''),
        (''wake_source'', PStr ''user_activity''), (''timestamp'', PFloat (clock p k)),
        (''sleep_duration'',
           (case sleep_start_time s of
              None \<Rightarrow> PInt 0
            | Some t \<Rightarrow> if t \<noteq> 0 then PFloat (clock p (k + 1) - t) else PInt 0))])]"
  by (simp add: wake_branch_def Let_def split_beta wake_tail_frame refresh_client_frame
      publish_power_event_frame calculate_sleep_duration_frame logger_def
      split: option.splits)

text \<open>A poll that samples an awake state after idle.\<close>

lemma wake_poll:
  assumes "detect_sleep_wake s" and "last_power_state s = ''idle''"
    and "sampled q s \<in> set awake_states"
  shows "power_event_calls (detect_power_events q s) = power_event_calls s @
           [(''state_change'', Some (state_change_details q ''idle'' (sampled q s)
                                       (sleep_detection_method s))),
            (''wake_detected'', Some [(''event'', PStr ''wake_detected''),
               (''wake_source'', PStr ''user_activity''), (''timestamp'', PFloat (clock q 4)),
               (''sleep_duration'',
                  (case sleep_start_time s of
                     None \<Rightarrow> PInt 0
                   | Some t \<Rightarrow> if t \<noteq> 0 then PFloat (clock q 5 - t) else PInt 0))])]"
proof -
  have nu: "sampled q s \<noteq> ''unknown''" and ni: "sampled q s \<noteq> ''idle''"
    and ns: "sampled q s \<notin> set sleep_states"
    using assms(3) by (auto simp: awake_states_def sleep_states_def)
  have g: "get_power_state q 0 s = (sampled q s, 1, s)"
    using sampled_not_unknown [OF nu] .
  have idle: "''idle'' \<in> set sleep_states" by (simp add: sleep_states_def)
  show ?thesis
    using assms ni ns idle
    by (simp add: detect_power_events_def g Let_def split_beta publish_power_event_frame
        wake_branch_calls state_change_details_def logger_def eval_nat_numeral
        split: option.splits)
qed

text \<open>
  The events of a run that goes from an awake state to idle, stays idle for any number
  of polls, and samples an awake state again after activity was reported.
\<close>

lemma sleep_wake_trace:
  assumes "detect_sleep_wake s"
    and "last_power_state s \<in> set awake_states"
    and "sampled p s = ''idle''"
    and "\<forall>x \<in> set ps. sampled x s = ''idle''"
    and "sampled q (update_activity_time t s) \<in> set awake_states"
  shows "power_event_calls (monitor_run (Poll p # map Poll ps @ [Activity t, Poll q]) s)
           = power_event_calls s @
             [(''state_change'', Some (state_change_details p (last_power_state s) ''idle''
                                         (sleep_detection_method s))),
              (''sleep_detected'', Some [(''event'', PStr ''sleep_detected''),
                 (''sleep_type'', PStr ''idle''), (''timestamp'', PFloat (clock p 5)),
                 (''last_activity'', PFloat (last_activity_time s)),
                 (''idle_duration'', PFloat ((clock p 6 - last_activity_time s) / 60))]),
              (''state_change'', Some (state_change_details q ''idle''
                                         (sampled q (update_activity_time t s))
                                         (sleep_detection_method s))),
              (''wake_detected'', Some [(''event'', PStr ''wake_detected''),
                 (''wake_source'', PStr ''user_activity''), (''timestamp'', PFloat (clock q 4)),
                 (''sleep_duration'',
                    if clock p 4 \<noteq> 0 then PFloat (clock q 5 - clock p 4) else PInt 0)])]"
proof -
  let ?s1 = "detect_power_events p s"
  note sp = sleep_poll [OF assms(1,2,3)]
  have same: "\<And>x. sampled x ?s1 = sampled x s"
    by (rule sampled_cong) (simp_all add: sp)
  have polls: "fold monitor_step (map Poll ps) ?s1 = ?s1"
    by (rule idle_polls_noop) (simp_all add: sp same assms(4))
  let ?s3 = "update_activity_time t ?s1"
  have s3: "detect_sleep_wake ?s3" "last_power_state ?s3 = ''idle''"
    "sleep_start_time ?s3 = Some (clock p 4)" "power_event_calls ?s3 = power_event_calls ?s1"
    "sleep_detection_method ?s3 = sleep_detection_method s"
    by (simp_all add: update_activity_time_def sp)
  have q: "sampled q ?s3 = sampled q (update_activity_time t s)"
    by (rule sampled_cong) (simp_all add: update_activity_time_def sp)
  have run: "monitor_run (Poll p # map Poll ps @ [Activity t, Poll q]) s = detect_power_events q ?s3"
    by (simp add: monitor_run_def polls)
  have "power_event_calls (detect_power_events q ?s3) = power_event_calls ?s3 @
           [(''state_change'', Some (state_change_details q ''idle'' (sampled q ?s3)
                                       (sleep_detection_method ?s3))),
            (''wake_detected'', Some [(''event'', PStr ''wake_detected''),
               (''wake_source'', PStr ''user_activity''), (''timestamp'', PFloat (clock q 4)),
               (''sleep_duration'',
                  (case sleep_start_time ?s3 of
                     None \<Rightarrow> PInt 0
                   | Some t \<Rightarrow> if t \<noteq> 0 then PFloat (clock q 5 - t) else PInt 0))])]"
    by (rule wake_poll) (simp_all add: s3 q assms(5))
  then show ?thesis
    by (simp add: run s3 q sp(1))
qed

text \<open>
  C9, as the code has it. With sleep/wake detection enabled, a run of the monitor that
  starts in an awake state, samples idle once or more, and samples an awake state after
  activity was reported, hands four events to the client: a state change and one
  \<^verbatim>\<open>sleep_detected\<close>, then a state change and one \<^verbatim>\<open>wake_detected\<close>. The wake event carries
  the clock reading of the wake minus the one stored at sleep detection, which is not
  negative when the clock did not go back between the two.
\<close>

theorem C9_one_sleep_then_one_wake:
  assumes "detect_sleep_wake s"
    and "last_power_state s \<in> set awake_states"
    and "sampled p s = ''idle''"
    and "\<forall>x \<in> set ps. sampled x s = ''idle''"
    and "sampled q (update_activity_time t s) \<in> set awake_states"
    and "clock p 4 \<le> clock q 5"
  shows "power_event_calls (monitor_run (Poll p # map Poll ps @ [Activity t, Poll q]) s)
           = power_event_calls s @
             [(''state_change'', Some (state_change_details p (last_power_state s) ''idle''
                                         (sleep_detection_method s))),
              (''sleep_detected'', Some [(''event'', PStr ''sleep_detected''),
                 (''sleep_type'', PStr ''idle''), (''timestamp'', PFloat (clock p 5)),
                 (''last_activity'', PFloat (last_activity_time s)),
                 (''idle_duration'', PFloat ((clock p 6 - last_activity_time s) / 60))]),
              (''state_change'', Some (state_change_details q ''idle''
                                         (sampled q (update_activity_time t s))
                                         (sleep_detection_method s))),
              (''wake_detected'', Some [(''event'', PStr ''wake_detected''),
                 (''wake_source'', PStr ''user_activity''), (''timestamp'', PFloat (clock q 4)),
                 (''sleep_duration'',
                    if clock p 4 \<noteq> 0 then PFloat (clock q 5 - clock p 4) else PInt 0)])]
       \<and> (\<exists>d. py_num (if clock p 4 \<noteq> 0 then PFloat (clock q 5 - clock p 4) else PInt 0) = Some d
              \<and> 0 \<le> d)"
proof -
  have "\<exists>d. py_num (if clock p 4 \<noteq> 0 then PFloat (clock q 5 - clock p 4) else PInt 0) = Some d
              \<and> 0 \<le> d"
    using assms(6) by simp
  with sleep_wake_trace [OF assms(1-5)] show ?thesis by blast
qed

lemma demo_samples:
  "detect_sleep_wake demo" "last_power_state demo \<in> set awake_states"
  "sampled p_idle demo = ''idle''" "sampled p_idle2 demo = ''idle''"
  "sampled q_wake (update_activity_time 2100 demo) = ''active''"
  "sampled q_back (update_activity_time 1895 demo) = ''active''"
  by (simp_all add: sampled_def get_power_state_def get_power_state_activity_def
      update_activity_time_def awake_states_def p_idle_def p_idle2_def q_wake_def q_back_def
      demo_def Let_def)

theorem C9_witness:
  "detect_sleep_wake demo
   \<and> last_power_state demo \<in> set awake_states
   \<and> sampled p_idle demo = ''idle''
   \<and> sampled p_idle2 demo = ''idle''
   \<and> sampled q_wake (update_activity_time 2100 demo) = ''active''
   \<and> clock p_idle 4 \<le> clock q_wake 5
   \<and> map fst (power_event_calls
        (monitor_run [Poll p_idle, Poll p_idle2, Activity 2100, Poll q_wake] demo))
       = [''state_change'', ''sleep_detected'', ''state_change'', ''wake_detected'']
   \<and> map (\<lambda>c. map_option (\<lambda>d. dict_get d ''sleep_duration'') (snd c)) (power_event_calls
        (monitor_run [Poll p_idle, Poll p_idle2, Activity 2100, Poll q_wake] demo))
       = [Some PNone, Some PNone, Some PNone, Some (PFloat 106)]"
proof -
  have a: "\<forall>x \<in> set [p_idle2]. sampled x demo = ''idle''" by (simp add: demo_samples)
  have b: "sampled q_wake (update_activity_time 2100 demo) \<in> set awake_states"
    by (simp add: demo_samples awake_states_def)
  have c: "clock p_idle 4 \<le> clock q_wake 5" by (simp add: p_idle_def q_wake_def)
  have e: "power_event_calls demo = []" by (simp add: demo_def)
  have f: "clock p_idle 4 = 2004" "clock q_wake 5 = 2110" by (simp_all add: p_idle_def q_wake_def)
  show ?thesis
    using C9_one_sleep_then_one_wake [OF demo_samples(1,2,3) a b c] demo_samples c e f
    by (simp add: state_change_details_def dict_get_def)
qed

text \<open>
  C9 as stated fails. With \<^verbatim>\<open>detect_sleep_wake\<close> off the same samples (awake, idle, awake)
  produce no event at all; and when the clock is set back during the idle time the wake
  event carries a negative sleep duration.
\<close>

theorem C9_counterexample:
  "last_power_state c9_off \<in> set awake_states
   \<and> sampled p_idle c9_off = ''idle''
   \<and> sampled q_wake (update_activity_time 2100 c9_off) = ''active''
   \<and> power_event_calls (monitor_run [Poll p_idle, Activity 2100, Poll q_wake] c9_off) = []
   \<and> map fst (power_event_calls (monitor_run [Poll p_idle, Activity 1895, Poll q_back] demo))
       = [''state_change'', ''sleep_detected'', ''state_change'', ''wake_detected'']
   \<and> map (\<lambda>c. map_option (\<lambda>d. dict_get d ''sleep_duration'') (snd c))
         (power_event_calls (monitor_run [Poll p_idle, Activity 1895, Poll q_back] demo))
       = [Some PNone, Some PNone, Some PNone, Some (PFloat (- 99))]"
proof -
  have off: "last_power_state c9_off \<in> set awake_states" "sampled p_idle c9_off = ''idle''"
    "sampled q_wake (update_activity_time 2100 c9_off) = ''active''"
    "power_event_calls (monitor_run [Poll p_idle, Activity 2100, Poll q_wake] c9_off) = []"
    by (simp_all add: c9_off_def sampled_def get_power_state_def get_power_state_activity_def
        update_activity_time_def awake_states_def p_idle_def q_wake_def monitor_run_def
        detect_power_events_def demo_def Let_def)
  have a: "\<forall>x \<in> set []. sampled x demo = ''idle''" by simp
  have b: "sampled q_back (update_activity_time 1895 demo) \<in> set awake_states"
    by (simp add: demo_samples awake_states_def)
  have e: "power_event_calls demo = []" by (simp add: demo_def)
  have f: "clock p_idle 4 = 2004" "clock q_back 5 = 1905" by (simp_all add: p_idle_def q_back_def)
  have neg: "map fst (power_event_calls (monitor_run [Poll p_idle, Activity 1895, Poll q_back] demo))
       = [''state_change'', ''sleep_detected'', ''state_change'', ''wake_detected'']"
    "map (\<lambda>c. map_option (\<lambda>d. dict_get d ''sleep_duration'') (snd c))
         (power_event_calls (monitor_run [Poll p_idle, Activity 1895, Poll q_back] demo))
       = [Some PNone, Some PNone, Some PNone, Some (PFloat (- 99))]"
    using sleep_wake_trace [OF demo_samples(1,2,3) a b] e f
    by (simp_all add: state_change_details_def dict_get_def)
  show ?thesis using off neg by simp
qed


end
